theory Spec2Isabelle
  imports Main
begin

section \<open>The masked language modeling dataset reader\<close>

text \<open>
  A shallow embedding of \<^verbatim>\<open>allennlp/data/dataset_readers/masked_language_modeling.py\<close>:
  the class \<^verbatim>\<open>MaskedLanguageModelingReader\<close> with its constructor, its \<^verbatim>\<open>_read\<close>
  method and its \<^verbatim>\<open>text_to_instance\<close> method. Optional arguments (default \<^verbatim>\<open>None\<close>)
  are values of an option type, an exception is the left summand of the result.
\<close>

subsection \<open>Exceptions\<close>

text \<open>
  The exceptions that the module raises, or that Python raises while running it.
  \<^verbatim>\<open>ValueError\<close> carries its message: the two validation failures of
  \<^verbatim>\<open>text_to_instance\<close> are both \<^verbatim>\<open>ValueError\<close>s and differ in the message only.
  \<^verbatim>\<open>TypeError\<close> is what iterating over \<^verbatim>\<open>None\<close> raises. \<^verbatim>\<open>TokenizerError\<close>
  stands for whatever an injected tokenizer raises.
\<close>

datatype error =
    ValueError string
  | TypeError
  | NotImplementedError
  | TokenizerError

subsection \<open>Tokens, fields and instances\<close>

text \<open>
  Modelled from the spec: the classes \<^verbatim>\<open>Token\<close>, \<^verbatim>\<open>TextField\<close>, \<^verbatim>\<open>IndexField\<close>,
  \<^verbatim>\<open>ListField\<close>, \<^verbatim>\<open>Instance\<close> and the token indexers are imported by the module and
  are not part of the sources at hand. A token is a unit of text with a \<^verbatim>\<open>text\<close>
  attribute; a text field pairs a token sequence with the indexer set; an index field
  is a position bound to a text field; an instance is the bundle of the three named
  fields.
\<close>

record token =
  token_text :: string

definition Token :: "string \<Rightarrow> token" where
  "Token t = \<lparr>token_text = t\<rparr>"

datatype token_indexer = SingleIdTokenIndexer | OtherTokenIndexer nat

type_synonym indexer_dict = "(string \<times> token_indexer) list"

record text_field =
  field_tokens :: "token list"
  field_indexers :: indexer_dict

definition TextField :: "token list \<Rightarrow> indexer_dict \<Rightarrow> text_field" where
  "TextField toks ixs = \<lparr>field_tokens = toks, field_indexers = ixs\<rparr>"

record index_field =
  sequence_index :: nat
  sequence_field :: text_field

definition IndexField :: "nat \<Rightarrow> text_field \<Rightarrow> index_field" where
  "IndexField i fld = \<lparr>sequence_index = i, sequence_field = fld\<rparr>"

record list_field =
  field_list :: "index_field list"

definition ListField :: "index_field list \<Rightarrow> list_field" where
  "ListField fs = \<lparr>field_list = fs\<rparr>"

text \<open>The dictionary handed to \<^verbatim>\<open>Instance\<close> has exactly the three keys below.\<close>

record instance_fields =
  tokens :: text_field
  mask_positions :: list_field
  target_ids :: text_field

subsection \<open>The default tokenizer\<close>

text \<open>
  Modelled from the spec: \<^verbatim>\<open>WordTokenizer(word_splitter=JustSpacesWordSplitter())\<close> is
  imported by the module and is not part of the sources at hand. The spec describes it
  as a whitespace-only splitter: the tokens are exactly the whitespace-delimited
  substrings, with no sub-word splitting and no normalization. The whitespace
  characters are the ASCII ones (tab, line feed, vertical tab, form feed, carriage
  return, the four separators 28 to 31, and space). The spec does not say what the
  splitter does when there is no sentence; the model lets it fail.
\<close>

definition is_whitespace :: "char \<Rightarrow> bool" where
  "is_whitespace c = (of_char c \<in> {9, 10, 11, 12, 13, 28, 29, 30, 31, 32 :: nat})"

fun split_words :: "string \<Rightarrow> string \<Rightarrow> string list" where
  "split_words cur [] = (if cur = [] then [] else [cur])"
| "split_words cur (c # cs) =
     (if is_whitespace c
      then (if cur = [] then split_words [] cs else cur # split_words [] cs)
      else split_words (cur @ [c]) cs)"

definition just_spaces_tokenize :: "string option \<Rightarrow> error + token list" where
  "just_spaces_tokenize sentence =
     (case sentence of
        None \<Rightarrow> Inl TokenizerError
      | Some s \<Rightarrow> Inr (map Token (split_words [] s)))"

subsection \<open>The reader and its constructor\<close>

record reader =
  tokenizer :: "string option \<Rightarrow> error + token list"
  token_indexers :: indexer_dict
  lazy :: bool

text \<open>
  \<^verbatim>\<open>__init__\<close>: \<^verbatim>\<open>tokenizer or WordTokenizer(...)\<close> takes the default for \<^verbatim>\<open>None\<close>;
  \<^verbatim>\<open>token_indexers or {"tokens": SingleIdTokenIndexer()}\<close> takes the default for
  \<^verbatim>\<open>None\<close> and for the empty dictionary, both of which are false in Python.
\<close>

definition init ::
  "(string option \<Rightarrow> error + token list) option \<Rightarrow> indexer_dict option \<Rightarrow> bool \<Rightarrow> reader" where
  "init tokenizer_arg token_indexers_arg lazy_arg =
     \<lparr>tokenizer = (case tokenizer_arg of None \<Rightarrow> just_spaces_tokenize | Some t \<Rightarrow> t),
      token_indexers =
        (case token_indexers_arg of
           None \<Rightarrow> [(''tokens'', SingleIdTokenIndexer)]
         | Some d \<Rightarrow> if d = [] then [(''tokens'', SingleIdTokenIndexer)] else d),
      lazy = lazy_arg\<rparr>"

subsection \<open>Reading a file\<close>

text \<open>The method \<^verbatim>\<open>_read\<close>: its body is the single statement \<^verbatim>\<open>raise NotImplementedError\<close>.\<close>

definition reader_read :: "reader \<Rightarrow> string \<Rightarrow> error + instance_fields list" where
  "reader_read rd file_path = Inl NotImplementedError"

subsection \<open>Building one instance\<close>

text \<open>Decimal formatting of a length inside the f-string of the second \<^verbatim>\<open>ValueError\<close>.\<close>

fun str_of_nat :: "nat \<Rightarrow> string" where
  "str_of_nat n =
     (if n < 10 then [''0123456789'' ! n]
      else str_of_nat (n div 10) @ [''0123456789'' ! (n mod 10)])"

declare str_of_nat.simps [simp del]

definition no_mask_message :: string where
  "no_mask_message = ''No [MASK] tokens found!''"

definition mismatch_message :: "nat \<Rightarrow> nat \<Rightarrow> string" where
  "mismatch_message n_masks n_targets =
     ''Found '' @ str_of_nat n_masks @ '' mask tokens and '' @ str_of_nat n_targets @ '' targets''"

text \<open>
  Lines 70 and 71: \<^verbatim>\<open>if not tokens: tokens = self._tokenizer.tokenize(sentence)\<close>.
  \<^verbatim>\<open>not tokens\<close> holds for \<^verbatim>\<open>None\<close> and for the empty list.
\<close>

definition resolve_tokens ::
  "reader \<Rightarrow> string option \<Rightarrow> token list option \<Rightarrow> error + token list" where
  "resolve_tokens rd sentence tokens_arg =
     (case tokens_arg of
        None \<Rightarrow> tokenizer rd sentence
      | Some ts \<Rightarrow> if ts = [] then tokenizer rd sentence else Inr ts)"

text \<open>Line 75, the test \<^verbatim>\<open>token.text == '[MASK]'\<close>.\<close>

definition is_mask_token :: "token \<Rightarrow> bool" where
  "is_mask_token t = (token_text t = ''[MASK]'')"

text \<open>
  Lines 73 to 76, the loop over \<^verbatim>\<open>enumerate(tokens)\<close>: \<open>i\<close> is the running index and
  the last argument is the list \<^verbatim>\<open>mask_positions\<close> built so far.
\<close>

fun collect_mask_positions :: "nat \<Rightarrow> token list \<Rightarrow> nat list \<Rightarrow> nat list" where
  "collect_mask_positions i [] acc = acc"
| "collect_mask_positions i (t # ts) acc =
     collect_mask_positions (Suc i) ts
       (if is_mask_token t then acc @ [i] else acc)"

text \<open>
  Lines 72 to 85, on the token sequence that lines 70 and 71 settled. The test of line 79,
  \<^verbatim>\<open>targets and len(targets) != len(mask_positions)\<close>, is false for \<^verbatim>\<open>None\<close> and
  for the empty list. With \<^verbatim>\<open>targets\<close> being \<^verbatim>\<open>None\<close> the list comprehension of
  line 82 iterates over \<^verbatim>\<open>None\<close>, which raises \<^verbatim>\<open>TypeError\<close>.
\<close>

definition instance_of_tokens ::
  "reader \<Rightarrow> token list \<Rightarrow> string list option \<Rightarrow> error + instance_fields" where
  "instance_of_tokens rd toks targets =
     (let input_field = TextField toks (token_indexers rd);
          positions = collect_mask_positions 0 toks []
      in if positions = [] then Inl (ValueError no_mask_message)
         else
           (case targets of
              None \<Rightarrow> Inl TypeError
            | Some tg \<Rightarrow>
                if tg \<noteq> [] \<and> length tg \<noteq> length positions
                then Inl (ValueError (mismatch_message (length positions) (length tg)))
                else Inr \<lparr>tokens = input_field,
                          mask_positions = ListField (map (\<lambda>i. IndexField i input_field) positions),
                          target_ids = TextField (map Token tg) (token_indexers rd)\<rparr>))"

definition text_to_instance ::
  "reader \<Rightarrow> string option \<Rightarrow> token list option \<Rightarrow> string list option
     \<Rightarrow> error + instance_fields" where
  "text_to_instance rd sentence tokens_arg targets =
     (case resolve_tokens rd sentence tokens_arg of
        Inl e \<Rightarrow> Inl e
      | Inr toks \<Rightarrow> instance_of_tokens rd toks targets)"

section \<open>Auxiliary facts\<close>

subsection \<open>The scan for mask positions\<close>

lemma collect_mask_positions_snoc:
  "collect_mask_positions i (ts @ [t]) acc =
     collect_mask_positions i ts acc @ (if is_mask_token t then [i + length ts] else [])"
  by (induction ts arbitrary: i acc) simp_all

lemma collect_mask_positions_filter:
  "collect_mask_positions 0 ts [] = filter (\<lambda>j. is_mask_token (ts ! j)) [0..<length ts]"
proof (induction ts rule: rev_induct)
  case Nil
  show ?case by simp
next
  case (snoc t ts)
  have same: "filter (\<lambda>j. is_mask_token ((ts @ [t]) ! j)) [0..<length ts]
      = filter (\<lambda>j. is_mask_token (ts ! j)) [0..<length ts]"
    by (rule filter_cong) (simp_all add: nth_append)
  show ?case
    by (simp add: collect_mask_positions_snoc snoc.IH same)
qed

lemma length_collect_mask_positions:
  "length (collect_mask_positions i ts acc) = length acc + length (filter is_mask_token ts)"
  by (induction ts arbitrary: i acc) simp_all

lemma collect_mask_positions_empty_iff:
  "collect_mask_positions 0 ts [] = [] \<longleftrightarrow> filter is_mask_token ts = []"
  using length_collect_mask_positions [of 0 ts "[]"] by (metis add_0 length_0_conv list.size(3))

lemma sorted_filter_upt: "sorted_wrt (<) (filter P [0..<n])"
  by (rule sorted_wrt_filter) simp

lemma set_filter_upt: "set (filter P [0..<n]) = {i. i < n \<and> P i}"
  by auto

lemma mask_nonempty: "filter is_mask_token toks \<noteq> [] \<Longrightarrow> toks \<noteq> []"
  by auto

subsection \<open>The stages of \<^verbatim>\<open>text_to_instance\<close>\<close>

lemma text_to_instance_supplied:
  "toks \<noteq> [] \<Longrightarrow>
     text_to_instance rd sentence (Some toks) targets = instance_of_tokens rd toks targets"
  by (simp add: text_to_instance_def resolve_tokens_def)

lemma text_to_instance_Inr:
  assumes "text_to_instance rd sentence tokens_arg targets = Inr inst"
  shows "\<exists>toks. resolve_tokens rd sentence tokens_arg = Inr toks
           \<and> instance_of_tokens rd toks targets = Inr inst"
  using assms
  by (cases "resolve_tokens rd sentence tokens_arg") (simp_all add: text_to_instance_def)

lemma instance_of_tokens_no_mask:
  "filter is_mask_token toks = [] \<Longrightarrow>
     instance_of_tokens rd toks targets = Inl (ValueError no_mask_message)"
  by (simp add: instance_of_tokens_def collect_mask_positions_empty_iff)

lemma instance_of_tokens_some:
  "filter is_mask_token toks \<noteq> [] \<Longrightarrow>
     instance_of_tokens rd toks (Some tg) =
       (if tg \<noteq> [] \<and> length tg \<noteq> length (filter is_mask_token toks)
        then Inl (ValueError (mismatch_message (length (filter is_mask_token toks)) (length tg)))
        else Inr \<lparr>tokens = TextField toks (token_indexers rd),
                  mask_positions =
                    ListField (map (\<lambda>i. IndexField i (TextField toks (token_indexers rd)))
                                 (collect_mask_positions 0 toks [])),
                  target_ids = TextField (map Token tg) (token_indexers rd)\<rparr>)"
  by (simp add: instance_of_tokens_def collect_mask_positions_empty_iff
        length_collect_mask_positions Let_def)

lemma instance_of_tokens_Inr:
  assumes "instance_of_tokens rd toks targets = Inr inst"
  shows "\<exists>tg. targets = Some tg
           \<and> inst = \<lparr>tokens = TextField toks (token_indexers rd),
                      mask_positions =
                        ListField (map (\<lambda>i. IndexField i (TextField toks (token_indexers rd)))
                                     (collect_mask_positions 0 toks [])),
                      target_ids = TextField (map Token tg) (token_indexers rd)\<rparr>"
  using assms
  by (cases targets) (auto simp: instance_of_tokens_def Let_def split: if_splits)

subsection \<open>Reading the fields back\<close>

lemma map_text_Token: "map (token_text \<circ> Token) tg = tg"
  by (induction tg) (simp_all add: Token_def)

lemma positions_of_built:
  "map sequence_index (field_list (ListField (map (\<lambda>i. IndexField i fld) ps))) = ps"
  by (induction ps) (simp_all add: ListField_def IndexField_def)

lemma fields_of_built:
  "map sequence_field (field_list (ListField (map (\<lambda>i. IndexField i fld) ps)))
     = replicate (length ps) fld"
  by (induction ps) (simp_all add: ListField_def IndexField_def)

lemma length_built: "length (field_list (ListField fs)) = length fs"
  by (simp add: ListField_def)

lemma messages_differ: "no_mask_message \<noteq> mismatch_message m k"
  by (simp add: no_mask_message_def mismatch_message_def)

subsection \<open>The default reader on the sentence of the repository's test\<close>

lemma default_indexers:
  "token_indexers (init None None False) = [(''tokens'', SingleIdTokenIndexer)]"
  by (simp add: init_def)

lemma resolve_default:
  "resolve_tokens (init None None False) (Some s) None = Inr (map Token (split_words [] s))"
  "resolve_tokens (init None None False) (Some s) (Some []) = Inr (map Token (split_words [] s))"
  by (simp_all add: resolve_tokens_def init_def just_spaces_tokenize_def)

lemma split_test_sentence:
  "split_words [] ''This is a [MASK] token .''
     = [''This'', ''is'', ''a'', ''[MASK]'', ''token'', ''.'']"
  by code_simp

lemma split_plain_sentence:
  "split_words [] ''This is a token .'' = [''This'', ''is'', ''a'', ''token'', ''.'']"
  by code_simp

lemma built_test_sentence:
  "instance_of_tokens (init None None False)
       (map Token [''This'', ''is'', ''a'', ''[MASK]'', ''token'', ''.'']) (Some [''This''])
     = Inr \<lparr>tokens = TextField (map Token [''This'', ''is'', ''a'', ''[MASK]'', ''token'', ''.''])
                       [(''tokens'', SingleIdTokenIndexer)],
            mask_positions = ListField
              [IndexField 3 (TextField (map Token [''This'', ''is'', ''a'', ''[MASK]'', ''token'', ''.''])
                               [(''tokens'', SingleIdTokenIndexer)])],
            target_ids = TextField [Token ''This''] [(''tokens'', SingleIdTokenIndexer)]\<rparr>"
  by (simp add: instance_of_tokens_def default_indexers Let_def Token_def is_mask_token_def
        eval_nat_numeral)

lemma built_plain_sentence:
  "instance_of_tokens (init None None False)
       (map Token [''This'', ''is'', ''a'', ''token'', ''.'']) (Some [''This''])
     = Inl (ValueError no_mask_message)"
  by (rule instance_of_tokens_no_mask) (simp add: Token_def is_mask_token_def)

lemma call_test_sentence:
  "text_to_instance (init None None False) (Some ''This is a [MASK] token .'') None (Some [''This''])
     = Inr \<lparr>tokens = TextField (map Token [''This'', ''is'', ''a'', ''[MASK]'', ''token'', ''.''])
                       [(''tokens'', SingleIdTokenIndexer)],
            mask_positions = ListField
              [IndexField 3 (TextField (map Token [''This'', ''is'', ''a'', ''[MASK]'', ''token'', ''.''])
                               [(''tokens'', SingleIdTokenIndexer)])],
            target_ids = TextField [Token ''This''] [(''tokens'', SingleIdTokenIndexer)]\<rparr>"
  unfolding text_to_instance_def resolve_default split_test_sentence
  by (simp only: sum.case built_test_sentence)

lemma call_test_sentence_empty_tokens:
  "text_to_instance (init None None False) (Some ''This is a [MASK] token .'') (Some [])
       (Some [''This''])
     = Inr \<lparr>tokens = TextField (map Token [''This'', ''is'', ''a'', ''[MASK]'', ''token'', ''.''])
                       [(''tokens'', SingleIdTokenIndexer)],
            mask_positions = ListField
              [IndexField 3 (TextField (map Token [''This'', ''is'', ''a'', ''[MASK]'', ''token'', ''.''])
                               [(''tokens'', SingleIdTokenIndexer)])],
            target_ids = TextField [Token ''This''] [(''tokens'', SingleIdTokenIndexer)]\<rparr>"
  unfolding text_to_instance_def resolve_default split_test_sentence
  by (simp only: sum.case built_test_sentence)

lemma call_plain_sentence_empty_tokens:
  "text_to_instance (init None None False) (Some ''This is a token .'') (Some []) (Some [''This''])
     = Inl (ValueError no_mask_message)"
  unfolding text_to_instance_def resolve_default split_plain_sentence
  by (simp only: sum.case built_plain_sentence)

section \<open>Properties of \<^verbatim>\<open>text_to_instance\<close> and \<^verbatim>\<open>_read\<close>\<close>

subsection \<open>Targets omitted\<close>

text \<open>
  C1: with a pre-built token sequence holding \<^verbatim>\<open>[MASK]\<close> at positions 1 and 4 and
  the \<^verbatim>\<open>targets\<close> argument omitted, \<^verbatim>\<open>text_to_instance\<close> returns no bundle: the
  test of line 79 is skipped for \<^verbatim>\<open>None\<close>, and the list comprehension of line 82
  then iterates over \<^verbatim>\<open>None\<close> and raises \<^verbatim>\<open>TypeError\<close>.
\<close>

theorem targets_omitted_raises:
  "text_to_instance (init None None False) None
     (Some [Token ''a'', Token ''[MASK]'', Token ''b'', Token ''c'', Token ''[MASK]'']) None
   = Inl TypeError"
  by (simp add: text_to_instance_def resolve_tokens_def instance_of_tokens_def Token_def
        is_mask_token_def)

subsection \<open>Target count mismatch\<close>

text \<open>
  C2, at \<open>k = 0\<close>: one \<^verbatim>\<open>[MASK]\<close> token and the empty targets list. The call
  returns a bundle, not the target-count-mismatch error.
\<close>

theorem empty_targets_accepted_example:
  "text_to_instance (init None None False) None (Some [Token ''[MASK]'']) (Some [])
     = Inr \<lparr>tokens = TextField [Token ''[MASK]''] [(''tokens'', SingleIdTokenIndexer)],
            mask_positions = ListField
              [IndexField 0 (TextField [Token ''[MASK]''] [(''tokens'', SingleIdTokenIndexer)])],
            target_ids = TextField [] [(''tokens'', SingleIdTokenIndexer)]\<rparr>
   \<and> text_to_instance (init None None False) None (Some [Token ''[MASK]'']) (Some [])
     \<noteq> Inl (ValueError (mismatch_message 1 0))"
  by (simp add: text_to_instance_def resolve_tokens_def instance_of_tokens_def Token_def
        is_mask_token_def init_def Let_def)

text \<open>
  C2, amended: for every token sequence with a nonzero count \<open>m\<close> of \<^verbatim>\<open>[MASK]\<close>
  tokens and every supplied non-empty targets list whose length \<open>k\<close> differs from
  \<open>m\<close>, \<^verbatim>\<open>text_to_instance\<close> fails with the \<^verbatim>\<open>ValueError\<close> that reports the two
  counts, and returns nothing else.
\<close>

theorem target_count_mismatch:
  assumes "filter is_mask_token toks \<noteq> []"
    and "tg \<noteq> []"
    and "length tg \<noteq> length (filter is_mask_token toks)"
  shows "text_to_instance rd sentence (Some toks) (Some tg) =
     Inl (ValueError (mismatch_message (length (filter is_mask_token toks)) (length tg)))"
proof -
  from assms(1) have "toks \<noteq> []"
    by (rule mask_nonempty)
  then have "text_to_instance rd sentence (Some toks) (Some tg)
      = instance_of_tokens rd toks (Some tg)"
    by (rule text_to_instance_supplied)
  also have "\<dots> =
      Inl (ValueError (mismatch_message (length (filter is_mask_token toks)) (length tg)))"
    using assms by (simp add: instance_of_tokens_some)
  finally show ?thesis .
qed

text \<open>One \<^verbatim>\<open>[MASK]\<close> token and the two targets \<^verbatim>\<open>a\<close> and \<^verbatim>\<open>b\<close>.\<close>

theorem target_count_mismatch_witness:
  "filter is_mask_token [Token ''[MASK]''] \<noteq> []
   \<and> [''a'', ''b''] \<noteq> ([] :: string list)
   \<and> length [''a'', ''b''] \<noteq> length (filter is_mask_token [Token ''[MASK]''])
   \<and> text_to_instance (init None None False) None (Some [Token ''[MASK]'']) (Some [''a'', ''b''])
       = Inl (ValueError ''Found 1 mask tokens and 2 targets'')"
  using target_count_mismatch [of "[Token ''[MASK]'']" "[''a'', ''b'']" "init None None False" None]
  by (simp add: Token_def is_mask_token_def mismatch_message_def str_of_nat.simps)

subsection \<open>The sentence is ignored when tokens are given\<close>

text \<open>
  C3, at the empty token sequence: with \<^verbatim>\<open>tokens=[]\<close> the tokenizer runs on the
  sentence, so two sentences give two different results.
\<close>

theorem empty_tokens_sentence_matters:
  "text_to_instance (init None None False) (Some ''This is a [MASK] token .'') (Some [])
       (Some [''This''])
     \<noteq> text_to_instance (init None None False) (Some ''This is a token .'') (Some [])
         (Some [''This''])"
  unfolding call_test_sentence_empty_tokens call_plain_sentence_empty_tokens by simp

text \<open>
  C3, amended: whenever the \<^verbatim>\<open>tokens\<close> argument is a non-empty token sequence, the
  result of \<^verbatim>\<open>text_to_instance\<close> depends on the tokens and the targets only: any two
  sentence values give equal results, which are those of lines 72 to 85 on the supplied
  tokens.
\<close>

theorem sentence_ignored:
  assumes "toks \<noteq> []"
  shows "text_to_instance rd sentence1 (Some toks) targets
           = text_to_instance rd sentence2 (Some toks) targets
         \<and> text_to_instance rd sentence1 (Some toks) targets = instance_of_tokens rd toks targets"
  using assms by (simp add: text_to_instance_supplied)

text \<open>A single \<^verbatim>\<open>[MASK]\<close> token, with two sentences that disagree with it.\<close>

theorem sentence_ignored_witness:
  "[Token ''[MASK]''] \<noteq> []
   \<and> text_to_instance (init None None False) (Some ''no mask here'') (Some [Token ''[MASK]''])
         (Some [''x''])
       = text_to_instance (init None None False) (Some ''[MASK] [MASK]'') (Some [Token ''[MASK]''])
           (Some [''x''])
   \<and> text_to_instance (init None None False) (Some ''no mask here'') (Some [Token ''[MASK]''])
         (Some [''x''])
       = instance_of_tokens (init None None False) [Token ''[MASK]''] (Some [''x''])"
proof -
  have ne: "[Token ''[MASK]''] \<noteq> []"
    by simp
  from ne sentence_ignored [OF ne, of "init None None False" "Some ''no mask here''"
      "Some [''x'']" "Some ''[MASK] [MASK]''"]
  show ?thesis by blast
qed

subsection \<open>Targets of the right length\<close>

text \<open>
  C4, at a token sequence without \<^verbatim>\<open>[MASK]\<close> and the empty targets list: the lengths
  agree (both are zero) and the call fails with the no-mask error.
\<close>

theorem no_mask_with_empty_targets_example:
  "length ([] :: string list) = length (filter is_mask_token [Token ''a''])
   \<and> text_to_instance (init None None False) None (Some [Token ''a'']) (Some [])
       = Inl (ValueError ''No [MASK] tokens found!'')"
  by (simp add: text_to_instance_def resolve_tokens_def instance_of_tokens_def Token_def
        is_mask_token_def no_mask_message_def)

text \<open>
  C4, amended: for every token sequence with at least one \<^verbatim>\<open>[MASK]\<close> token and every
  supplied targets list whose length equals the count of \<^verbatim>\<open>[MASK]\<close> tokens,
  \<^verbatim>\<open>text_to_instance\<close> returns a bundle whose \<^verbatim>\<open>target_ids\<close>, read as text, are the
  targets in order; it has one mask position per target and the supplied tokens.
\<close>

theorem targets_become_target_ids:
  assumes "filter is_mask_token toks \<noteq> []"
    and "length tg = length (filter is_mask_token toks)"
  shows "\<exists>inst. text_to_instance rd sentence (Some toks) (Some tg) = Inr inst
           \<and> map token_text (field_tokens (target_ids inst)) = tg
           \<and> length (field_list (mask_positions inst)) = length tg
           \<and> field_tokens (tokens inst) = toks"
proof -
  from assms(1) have "toks \<noteq> []"
    by (rule mask_nonempty)
  then have "text_to_instance rd sentence (Some toks) (Some tg)
      = instance_of_tokens rd toks (Some tg)"
    by (rule text_to_instance_supplied)
  with assms show ?thesis
    by (simp add: instance_of_tokens_some TextField_def ListField_def map_text_Token
          length_collect_mask_positions)
qed

text \<open>Two tokens, the second one \<^verbatim>\<open>[MASK]\<close>, and one target.\<close>

theorem targets_become_target_ids_witness:
  "filter is_mask_token [Token ''a'', Token ''[MASK]''] \<noteq> []
   \<and> length [''b''] = length (filter is_mask_token [Token ''a'', Token ''[MASK]''])
   \<and> (\<exists>inst. text_to_instance (init None None False) None (Some [Token ''a'', Token ''[MASK]''])
                (Some [''b'']) = Inr inst
           \<and> map token_text (field_tokens (target_ids inst)) = [''b'']
           \<and> length (field_list (mask_positions inst)) = length [''b'']
           \<and> field_tokens (tokens inst) = [Token ''a'', Token ''[MASK]''])"
  using targets_become_target_ids
    [of "[Token ''a'', Token ''[MASK]'']" "[''b'']" "init None None False" None]
  by (simp add: Token_def is_mask_token_def)

subsection \<open>No mask token\<close>

text \<open>
  C5, at the empty token sequence: it holds no \<^verbatim>\<open>[MASK]\<close> token, yet with
  \<^verbatim>\<open>tokens=[]\<close> the tokenizer runs on the sentence, here the sentence of the
  repository's test, and the call returns a bundle.
\<close>

theorem empty_tokens_with_masked_sentence_example:
  "filter is_mask_token [] = []
   \<and> text_to_instance (init None None False) (Some ''This is a [MASK] token .'') (Some [])
         (Some [''This''])
       = Inr \<lparr>tokens = TextField (map Token [''This'', ''is'', ''a'', ''[MASK]'', ''token'', ''.''])
                         [(''tokens'', SingleIdTokenIndexer)],
              mask_positions = ListField
                [IndexField 3
                   (TextField (map Token [''This'', ''is'', ''a'', ''[MASK]'', ''token'', ''.''])
                      [(''tokens'', SingleIdTokenIndexer)])],
              target_ids = TextField [Token ''This''] [(''tokens'', SingleIdTokenIndexer)]\<rparr>"
  unfolding call_test_sentence_empty_tokens by simp

text \<open>
  C5, amended: whenever the token sequence that is scanned (the supplied tokens when
  they are non-empty, the tokenizer's output on the sentence otherwise) holds no
  \<^verbatim>\<open>[MASK]\<close> token, \<^verbatim>\<open>text_to_instance\<close> fails with the no-mask error, whether
  targets are supplied or not and whatever their length; the no-mask error is not a
  target-count-mismatch error.
\<close>

theorem no_mask_error:
  assumes "resolve_tokens rd sentence tokens_arg = Inr toks"
    and "filter is_mask_token toks = []"
  shows "text_to_instance rd sentence tokens_arg targets = Inl (ValueError no_mask_message)
         \<and> ValueError no_mask_message \<noteq> ValueError (mismatch_message m k)"
  using assms by (simp add: text_to_instance_def instance_of_tokens_no_mask messages_differ)

text \<open>Two supplied tokens, none of them \<^verbatim>\<open>[MASK]\<close>, and three targets.\<close>

theorem no_mask_error_witness:
  "resolve_tokens (init None None False) None (Some [Token ''a'', Token ''b''])
       = Inr [Token ''a'', Token ''b'']
   \<and> filter is_mask_token [Token ''a'', Token ''b''] = []
   \<and> text_to_instance (init None None False) None (Some [Token ''a'', Token ''b''])
         (Some [''x'', ''y'', ''z''])
       = Inl (ValueError ''No [MASK] tokens found!'')
   \<and> ValueError ''No [MASK] tokens found!'' \<noteq> ValueError (mismatch_message 0 3)"
  using no_mask_error [of "init None None False" None "Some [Token ''a'', Token ''b'']"
      "[Token ''a'', Token ''b'']" "Some [''x'', ''y'', ''z'']" 0 3]
  by (simp add: Token_def is_mask_token_def resolve_tokens_def no_mask_message_def)

subsection \<open>The mask positions\<close>

text \<open>
  C6, at a single \<^verbatim>\<open>[MASK]\<close> token: position 0 is listed, and the text of the token
  there has six characters, not seven.
\<close>

theorem mask_literal_six_characters:
  "text_to_instance (init None None False) None (Some [Token ''[MASK]'']) (Some [''x''])
     = Inr \<lparr>tokens = TextField [Token ''[MASK]''] [(''tokens'', SingleIdTokenIndexer)],
            mask_positions = ListField
              [IndexField 0 (TextField [Token ''[MASK]''] [(''tokens'', SingleIdTokenIndexer)])],
            target_ids = TextField [Token ''x''] [(''tokens'', SingleIdTokenIndexer)]\<rparr>
   \<and> length (token_text ([Token ''[MASK]''] ! 0)) = 6
   \<and> length (token_text ([Token ''[MASK]''] ! 0)) \<noteq> 7"
  by (simp add: text_to_instance_def resolve_tokens_def instance_of_tokens_def Token_def
        is_mask_token_def init_def Let_def)

text \<open>
  C6, amended: whenever \<^verbatim>\<open>text_to_instance\<close> returns a bundle, its mask positions
  are exactly the indices \<open>i\<close> into the returned token sequence, from left to right,
  at which the token text equals the 6-character literal \<^verbatim>\<open>[MASK]\<close>: the indices are
  strictly increasing, each one points at a \<^verbatim>\<open>[MASK]\<close> token, every \<^verbatim>\<open>[MASK]\<close>
  token is listed, each position is bound to the returned \<^verbatim>\<open>tokens\<close> field, and the
  returned token sequence is the one that was scanned.
\<close>

theorem mask_positions_characterised:
  assumes "text_to_instance rd sentence tokens_arg targets = Inr inst"
  shows "map sequence_index (field_list (mask_positions inst))
           = filter (\<lambda>i. token_text (field_tokens (tokens inst) ! i) = ''[MASK]'')
               [0..<length (field_tokens (tokens inst))]
         \<and> sorted_wrt (<) (map sequence_index (field_list (mask_positions inst)))
         \<and> set (map sequence_index (field_list (mask_positions inst)))
             = {i. i < length (field_tokens (tokens inst))
                   \<and> token_text (field_tokens (tokens inst) ! i) = ''[MASK]''}
         \<and> map sequence_field (field_list (mask_positions inst))
             = replicate (length (field_list (mask_positions inst))) (tokens inst)
         \<and> resolve_tokens rd sentence tokens_arg = Inr (field_tokens (tokens inst))
         \<and> length ''[MASK]'' = 6"
proof -
  from text_to_instance_Inr [OF assms] obtain toks where
    res: "resolve_tokens rd sentence tokens_arg = Inr toks"
    and built: "instance_of_tokens rd toks targets = Inr inst"
    by blast
  define fld where "fld = TextField toks (token_indexers rd)"
  define ps where "ps = collect_mask_positions 0 toks []"
  from instance_of_tokens_Inr [OF built] obtain tg where
    inst: "inst = \<lparr>tokens = fld,
                    mask_positions = ListField (map (\<lambda>i. IndexField i fld) ps),
                    target_ids = TextField (map Token tg) (token_indexers rd)\<rparr>"
    unfolding fld_def ps_def by blast
  have tk: "tokens inst = fld"
    and mp: "mask_positions inst = ListField (map (\<lambda>i. IndexField i fld) ps)"
    by (simp_all add: inst)
  have toks: "field_tokens (tokens inst) = toks"
    by (simp add: tk fld_def TextField_def)
  have ps: "ps = filter (\<lambda>i. token_text (toks ! i) = ''[MASK]'') [0..<length toks]"
    unfolding ps_def collect_mask_positions_filter is_mask_token_def ..
  have idx: "map sequence_index (field_list (mask_positions inst)) = ps"
    unfolding mp by (rule positions_of_built)
  have bound: "map sequence_field (field_list (mask_positions inst))
               = replicate (length (field_list (mask_positions inst))) (tokens inst)"
    unfolding mp tk length_built fields_of_built by simp
  have srt: "sorted_wrt (<) ps"
    unfolding ps by (rule sorted_filter_upt)
  have mem: "set ps = {i. i < length toks \<and> token_text (toks ! i) = ''[MASK]''}"
    unfolding ps by (rule set_filter_upt)
  have lit: "length ''[MASK]'' = 6"
    by simp
  from ps srt mem bound res lit show ?thesis
    unfolding toks idx by (intro conjI)
qed

text \<open>Five tokens with \<^verbatim>\<open>[MASK]\<close> at positions 1 and 4, and two targets.\<close>

theorem mask_positions_characterised_witness:
  "\<exists>inst. text_to_instance (init None None False) None
             (Some [Token ''a'', Token ''[MASK]'', Token ''b'', Token ''c'', Token ''[MASK]''])
             (Some [''x'', ''y'']) = Inr inst
     \<and> map sequence_index (field_list (mask_positions inst)) = [1, 4]
     \<and> map sequence_index (field_list (mask_positions inst))
         = filter (\<lambda>i. token_text (field_tokens (tokens inst) ! i) = ''[MASK]'')
             [0..<length (field_tokens (tokens inst))]
     \<and> sorted_wrt (<) (map sequence_index (field_list (mask_positions inst)))
     \<and> field_tokens (tokens inst)
         = [Token ''a'', Token ''[MASK]'', Token ''b'', Token ''c'', Token ''[MASK]'']"
proof -
  let ?toks = "[Token ''a'', Token ''[MASK]'', Token ''b'', Token ''c'', Token ''[MASK]'']"
  let ?fld = "TextField ?toks [(''tokens'', SingleIdTokenIndexer)]"
  let ?inst = "\<lparr>tokens = ?fld, mask_positions = ListField [IndexField 1 ?fld, IndexField 4 ?fld],
                 target_ids = TextField [Token ''x'', Token ''y''] [(''tokens'', SingleIdTokenIndexer)]\<rparr>"
  have call: "text_to_instance (init None None False) None (Some ?toks) (Some [''x'', ''y''])
      = Inr ?inst"
    by (simp add: text_to_instance_def resolve_tokens_def instance_of_tokens_def Token_def
          is_mask_token_def init_def Let_def eval_nat_numeral)
  have sel: "map sequence_index (field_list (mask_positions ?inst)) = [1, 4]"
    and seq: "field_tokens (tokens ?inst) = ?toks"
    by (simp_all add: ListField_def IndexField_def TextField_def)
  note chr = mask_positions_characterised [OF call]
  show ?thesis
  proof (rule exI [where x = "?inst"], intro conjI)
    show "text_to_instance (init None None False) None (Some ?toks) (Some [''x'', ''y''])
        = Inr ?inst"
      by (rule call)
    show "map sequence_index (field_list (mask_positions ?inst)) = [1, 4]"
      by (rule sel)
    show "map sequence_index (field_list (mask_positions ?inst))
        = filter (\<lambda>i. token_text (field_tokens (tokens ?inst) ! i) = ''[MASK]'')
            [0..<length (field_tokens (tokens ?inst))]"
      by (rule chr [THEN conjunct1])
    show "sorted_wrt (<) (map sequence_index (field_list (mask_positions ?inst)))"
      by (rule chr [THEN conjunct2, THEN conjunct1])
    show "field_tokens (tokens ?inst) = ?toks"
      by (rule seq)
  qed
qed

subsection \<open>The test of the repository\<close>

text \<open>
  C7: with the default configuration, \<^verbatim>\<open>text_to_instance\<close> on the sentence
  \<^verbatim>\<open>This is a [MASK] token .\<close> with the targets \<^verbatim>\<open>["This"]\<close> returns a bundle whose
  token texts are \<^verbatim>\<open>This\<close>, \<^verbatim>\<open>is\<close>, \<^verbatim>\<open>a\<close>, \<^verbatim>\<open>[MASK]\<close>, \<^verbatim>\<open>token\<close>, \<^verbatim>\<open>.\<close>, whose mask
  positions are \<^verbatim>\<open>[3]\<close> and whose target texts are \<^verbatim>\<open>["This"]\<close>.
\<close>

theorem basic_tokenizer_example:
  "\<exists>inst. text_to_instance (init None None False) (Some ''This is a [MASK] token .'') None
             (Some [''This'']) = Inr inst
     \<and> map token_text (field_tokens (tokens inst))
         = [''This'', ''is'', ''a'', ''[MASK]'', ''token'', ''.'']
     \<and> map sequence_index (field_list (mask_positions inst)) = [3]
     \<and> map token_text (field_tokens (target_ids inst)) = [''This'']"
  unfolding call_test_sentence
  by (simp add: TextField_def ListField_def IndexField_def Token_def)

subsection \<open>Reading a file is not implemented\<close>

text \<open>
  C8: for every reader and every file path, \<^verbatim>\<open>_read\<close> fails with the
  not-implemented error and yields no instances; that error is neither the no-mask
  error nor a target-count-mismatch error.
\<close>

theorem read_not_implemented:
  "reader_read rd file_path = Inl NotImplementedError
   \<and> NotImplementedError \<noteq> ValueError no_mask_message
   \<and> NotImplementedError \<noteq> ValueError (mismatch_message m k)"
  by (simp add: reader_read_def)

subsection \<open>Empty arguments\<close>

text \<open>
  C9: a supplied but empty \<^verbatim>\<open>tokens\<close> argument is treated as an absent one: the
  tokenizer runs on the sentence, a failure of the tokenizer is the failure of the call,
  and lines 72 to 85 work on the tokenizer's output.
\<close>

theorem empty_tokens_same_as_absent:
  "text_to_instance rd sentence (Some []) targets = text_to_instance rd sentence None targets
   \<and> text_to_instance rd sentence (Some []) targets
       = (case tokenizer rd sentence of
            Inl e \<Rightarrow> Inl e
          | Inr toks \<Rightarrow> instance_of_tokens rd toks targets)"
  by (simp add: text_to_instance_def resolve_tokens_def)

text \<open>
  C10: with the empty targets list the target count is not validated: for every token
  sequence with at least one \<^verbatim>\<open>[MASK]\<close> token, \<^verbatim>\<open>text_to_instance\<close> returns a bundle
  with no target ids and with one mask position per \<^verbatim>\<open>[MASK]\<close> token, hence not the
  target-count-mismatch error.
\<close>

theorem empty_targets_skip_validation:
  assumes "filter is_mask_token toks \<noteq> []"
  shows "\<exists>inst. text_to_instance rd sentence (Some toks) (Some []) = Inr inst
           \<and> field_tokens (target_ids inst) = []
           \<and> field_list (mask_positions inst) \<noteq> []
           \<and> length (field_list (mask_positions inst)) = length (filter is_mask_token toks)"
proof -
  from assms have "toks \<noteq> []"
    by (rule mask_nonempty)
  then have "text_to_instance rd sentence (Some toks) (Some [])
      = instance_of_tokens rd toks (Some [])"
    by (rule text_to_instance_supplied)
  with assms show ?thesis
    by (simp add: instance_of_tokens_some TextField_def ListField_def
          length_collect_mask_positions collect_mask_positions_empty_iff)
qed

text \<open>Three tokens, two of them \<^verbatim>\<open>[MASK]\<close>, and the empty targets list.\<close>

theorem empty_targets_skip_validation_witness:
  "filter is_mask_token [Token ''[MASK]'', Token ''b'', Token ''[MASK]''] \<noteq> []
   \<and> (\<exists>inst. text_to_instance (init None None False) None
                (Some [Token ''[MASK]'', Token ''b'', Token ''[MASK]'']) (Some []) = Inr inst
           \<and> field_tokens (target_ids inst) = []
           \<and> field_list (mask_positions inst) \<noteq> []
           \<and> length (field_list (mask_positions inst)) = 2)"
  using empty_targets_skip_validation
    [of "[Token ''[MASK]'', Token ''b'', Token ''[MASK]'']" "init None None False" None]
  by (simp add: Token_def is_mask_token_def numeral_2_eq_2)

end
